theory Spec2Isabelle
  imports Complex_Main
begin

section \<open>Python values, exceptions and array outputs\<close>

text \<open>
  The prediction pipeline of \<^verbatim>\<open>app_beautiful_fixed_v2.py\<close> (class
  \<^verbatim>\<open>ChempropBeautifulGUI\<close>) is embedded as state-passing functions over a record of
  the attributes of the window. Exceptions are values: a function that can raise returns
  \<open>pyexc + 'a\<close>, with \<open>Inl\<close> the exception. Only subclasses of Python's
  \<^verbatim>\<open>Exception\<close> are modelled, so \<^verbatim>\<open>except Exception\<close> and a bare
  \<^verbatim>\<open>except\<close> catch every value of \<open>pyexc\<close>; \<open>TypeError\<close> stands for the class
  and its subclasses. Scores are Python floats; they are modelled as reals, which is exact
  for the comparisons with \<open>0.5\<close> made by the code (a NaN compares false, as a real not
  above \<open>0.5\<close> does).
\<close>

datatype pyexc =
    TypeError | ValueError | IndexError | RuntimeError | UnboundLocalError
  | ZeroDivisionError | OSError | OtherError string

text \<open>
  An n-dimensional array (a \<^verbatim>\<open>torch.Tensor\<close> or a \<^verbatim>\<open>numpy.ndarray\<close>): a scalar
  element, or a sequence of sub-arrays along the first axis.
\<close>

datatype nd = Elem real | Dim "nd list"

fun elems :: "nd \<Rightarrow> real list" where
  "elems (Elem r) = [r]"
| "elems (Dim ts) = concat (map elems ts)"

definition numel :: "nd \<Rightarrow> nat" where
  "numel t = length (elems t)"

text \<open>\<^verbatim>\<open>t.item()\<close>: the value of an array of exactly one element, an error otherwise.\<close>

definition item :: "nd \<Rightarrow> pyexc + real" where
  "item t = (case elems t of [x] \<Rightarrow> Inr x | _ \<Rightarrow> Inl RuntimeError)"

text \<open>\<^verbatim>\<open>t[0]\<close>: a zero-dimensional or empty array cannot be indexed.\<close>

fun index0 :: "nd \<Rightarrow> pyexc + nd" where
  "index0 (Elem r) = Inl IndexError"
| "index0 (Dim []) = Inl IndexError"
| "index0 (Dim (t # ts)) = Inr t"

text \<open>\<^verbatim>\<open>a.flat[0]\<close>: the first element in flat order.\<close>

definition flat0 :: "nd \<Rightarrow> pyexc + real" where
  "flat0 a = (case elems a of [] \<Rightarrow> Inl IndexError | x # _ \<Rightarrow> Inr x)"

text \<open>
  \<^verbatim>\<open>numpy.concatenate(arrays, axis=0)\<close>: needs at least one array, and none of them
  zero-dimensional. (Mismatching trailing shapes, which numpy also rejects, are not
  modelled: no claim depends on them.)
\<close>

fun children :: "nd \<Rightarrow> nd list" where
  "children (Elem r) = []"
| "children (Dim ts) = ts"

fun is_Dim :: "nd \<Rightarrow> bool" where
  "is_Dim (Elem r) = False"
| "is_Dim (Dim ts) = True"

definition np_concatenate :: "nd list \<Rightarrow> pyexc + nd" where
  "np_concatenate ts =
     (if ts = [] then Inl ValueError
      else if list_all is_Dim ts then Inr (Dim (concat (map children ts)))
      else Inl ValueError)"

text \<open>The objects \<^verbatim>\<open>_extract_prediction_value\<close> distinguishes by \<^verbatim>\<open>isinstance\<close>.\<close>

datatype pyobj =
    Tensor nd
  | PyList "pyobj list"
  | NdArray nd
  | PyFloat real
  | PyInt int
  | PyNone

text \<open>\<^verbatim>\<open>float(x)\<close>.\<close>

fun py_float :: "pyobj \<Rightarrow> pyexc + real" where
  "py_float (PyFloat r) = Inr r"
| "py_float (PyInt i) = Inr (of_int i)"
| "py_float PyNone = Inl TypeError"
| "py_float (PyList xs) = Inl TypeError"
| "py_float (Tensor t) = (case elems t of [x] \<Rightarrow> Inr x | _ \<Rightarrow> Inl ValueError)"
| "py_float (NdArray a) = (case elems a of [x] \<Rightarrow> Inr x | _ \<Rightarrow> Inl TypeError)"

text \<open>
  The body of the \<^verbatim>\<open>try\<close> block of \<^verbatim>\<open>_extract_prediction_value\<close>, with the
  \<^verbatim>\<open>isinstance\<close> tests in the order of the source (a list and a tuple share the
  constructor \<open>PyList\<close>).
\<close>

fun extract_try :: "pyobj \<Rightarrow> pyexc + real" where
  "extract_try (Tensor t) =
     (if numel t > 1
      then (case index0 t of Inl e \<Rightarrow> Inl e | Inr t0 \<Rightarrow> item t0)
      else item t)"
| "extract_try (PyList xs) =
     (case xs of [] \<Rightarrow> Inl IndexError | x # _ \<Rightarrow> py_float x)"
| "extract_try (NdArray a) = flat0 a"
| "extract_try (PyFloat r) = py_float (PyFloat r)"
| "extract_try (PyInt i) = py_float (PyInt i)"
| "extract_try PyNone = py_float PyNone"

section \<open>The library the window calls\<close>

text \<open>
  chemprop, RDKit, Lightning, torch and pandas are not part of the repository. What
  depends on the chemistry, the network and the files is a parameter of the embedding,
  the record \<open>lib\<close>: which strings RDKit parses, what the forward pass returns or
  raises, what loading, reading and writing do. The constructors of chemprop 2 that the
  prediction methods call are written out, as they behave on a string:
  \<^item> \<^verbatim>\<open>Chem.MolFromSmiles(s)\<close> returns a molecule, or \<^verbatim>\<open>None\<close> for a string it cannot
    parse;
  \<^item> \<^verbatim>\<open>MoleculeDatapoint.from_smi(s)\<close> parses \<open>s\<close> with RDKit, raises
    \<^verbatim>\<open>RuntimeError\<close> when RDKit returns \<^verbatim>\<open>None\<close>, and otherwise builds the datapoint of
    the molecule, named \<open>s\<close>;
  \<^item> \<^verbatim>\<open>MoleculeDatapoint(mol=mol)\<close> builds the datapoint of a molecule;
  \<^item> \<^verbatim>\<open>MoleculeDatapoint()\<close> raises \<^verbatim>\<open>TypeError\<close>: the molecule is a required argument;
  \<^item> the featurizer, \<^verbatim>\<open>MoleculeDataset\<close> and \<^verbatim>\<open>build_dataloader\<close> only store their
    arguments; the molecules are featurized when the loader is read, inside the forward
    pass.
\<close>

datatype mol = Mol string

record datapoint =
  dp_mol :: "mol option"
  dp_name :: "string option"
  dp_smiles :: "string option"

datatype featurizer = SimpleMoleculeMolGraphFeaturizer

datatype dataset = MoleculeDataset "datapoint list" "featurizer option"

datatype loader = DataLoader dataset

text \<open>
  The object \<^verbatim>\<open>self.model\<close> holds once loaded: its name, and what \<^verbatim>\<open>bool(self.model)\<close>
  does. A network is true; an empty dictionary of weights is false; a tensor of several
  elements raises.
\<close>

datatype model = Loaded string "pyexc + bool"

fun truth :: "model \<Rightarrow> pyexc + bool" where
  "truth (Loaded name b) = b"

datatype cell = CStr string | CNum real

record table =
  columns :: "string list"
  rows :: "cell list list"

record lib =
  MolFromSmiles :: "string \<Rightarrow> mol option"
    \<comment> \<open>\<^verbatim>\<open>Chem.MolFromSmiles(smiles)\<close>; \<open>None\<close> for a string RDKit cannot parse\<close>
  trainer_predict :: "model \<Rightarrow> loader \<Rightarrow> pyexc + nd list"
    \<comment> \<open>\<^verbatim>\<open>pl.Trainer(...).predict(self.model, test_loader)\<close>: one array per batch\<close>
  load_from_checkpoint :: "string \<Rightarrow> pyexc + model"
  torch_load :: "string \<Rightarrow> pyexc + model"
  read_csv :: "string \<Rightarrow> pyexc + string list option"
    \<comment> \<open>\<^verbatim>\<open>pd.read_csv(path)\<close>: the column \<^verbatim>\<open>smiles\<close> as a list, \<open>None\<close> without that column\<close>
  to_csv :: "string \<Rightarrow> table \<Rightarrow> pyexc option"
    \<comment> \<open>\<^verbatim>\<open>df.to_csv(path, index=False)\<close>: \<open>Some e\<close> when the write raises\<close>
  strftime_now :: "nat \<Rightarrow> string"
    \<comment> \<open>the formatted reading of the clock at its n-th reading\<close>

text \<open>\<^verbatim>\<open>data.MoleculeDatapoint(mol, name=...)\<close>, with the name when one is given.\<close>

definition MoleculeDatapoint :: "mol \<Rightarrow> string option \<Rightarrow> datapoint" where
  "MoleculeDatapoint mol name = \<lparr>dp_mol = Some mol, dp_name = name, dp_smiles = None\<rparr>"

text \<open>\<^verbatim>\<open>data.MoleculeDatapoint()\<close>: the required argument is missing.\<close>

definition MoleculeDatapoint_no_argument :: "pyexc + datapoint" where
  "MoleculeDatapoint_no_argument = Inl TypeError"

definition from_smi :: "lib \<Rightarrow> string \<Rightarrow> pyexc + datapoint" where
  "from_smi L smi =
     (case MolFromSmiles L smi of
        None \<Rightarrow> Inl RuntimeError
      | Some mol \<Rightarrow> Inr (MoleculeDatapoint mol (Some smi)))"

definition build_dataloader :: "dataset \<Rightarrow> loader" where
  "build_dataloader batch = DataLoader batch"

section \<open>The state of the window\<close>

text \<open>
  A row of the batch result: the dictionary appended to \<^verbatim>\<open>predictions\<close>. Its
  \<^verbatim>\<open>prediction\<close> is a float, or the string \<^verbatim>\<open>'ERROR'\<close> that tags a failed item.
\<close>

datatype pred = Score real | ERROR

datatype herb = Antibiotic | Non_antibiotic | Prediction_failed

record row =
  row_smiles :: string
  row_prediction :: pred
  row_confidence :: real
  is_antibiotic :: bool
  herb_type :: herb

text \<open>An entry of \<^verbatim>\<open>prediction_history\<close>: the dictionary built by \<^verbatim>\<open>add_to_history\<close>.\<close>

record entry =
  timestamp :: string
  h_smiles :: string
  h_prediction :: real
  h_confidence :: real

text \<open>
  What the history panel shows: a placeholder, or one line per shown record (time, the
  first 50 characters of the string, prediction, confidence).
\<close>

datatype hist_view = No_history | History_table "(string \<times> string \<times> real \<times> real) list"

text \<open>The lines appended to the log panel, and the message boxes, by what they say.\<close>

datatype logline =
    Log_model_unloaded
  | Log_loading
  | Log_loaded
  | Log_load_failed pyexc
  | Log_analysing string
  | Log_extract_default pyexc
  | Log_predicted real
  | Log_predict_failed pyexc
  | Log_batch_start
  | Log_batch_count nat
  | Log_item nat nat real herb
  | Log_item_failed nat pyexc
  | Log_batch_finished
  | Log_total nat
  | Log_antibiotics nat
  | Log_errors nat
  | Log_batch_failed pyexc
  | Log_history_cleared
  | Log_exported string

datatype dialog =
    Warn_enter_smiles
  | Warn_load_model_first
  | Warn_choose_test_file
  | Warn_no_smiles_column
  | Warn_choose_model_file
  | Warn_no_history
  | Critical_prediction_failed pyexc
  | Critical_batch_failed pyexc
  | Critical_load_failed pyexc
  | Info_model_loaded
  | Info_batch_done nat nat
  | Info_exported

text \<open>The steps of the pipeline that reach the library, in the order they are started.\<close>

datatype libcall = Featurization string | Inference

text \<open>
  The attributes of \<^verbatim>\<open>ChempropBeautifulGUI\<close> the pipeline reads and writes. Beside
  them: \<open>dialogs\<close>, the message boxes shown so far; \<open>lib_calls\<close>, the pipeline steps
  started so far; \<open>files\<close>, the tables written; \<open>ticks\<close>, the number of readings of the
  clock. \<open>model_info_display\<close> is the file and the kind (checkpoint or not) the model
  panel shows, \<open>None\<close> while it shows that there is no model. Labels, style sheets and
  the progress bar are left out.
\<close>

record app =
  model :: "model option"
  model_path :: "string option"
  prediction_history :: "entry list"
  smiles_input :: string
  test_edit :: string
  model_path_edit :: string
  predict_single_btn :: bool
  batch_predict_btn :: bool
  result_table :: "row list"
  history_display :: hist_view
  model_info_display :: "(string \<times> bool) option"
  log_edit :: "logline list"
  dialogs :: "dialog list"
  lib_calls :: "libcall list"
  files :: "(string \<times> table) list"
  ticks :: nat

definition log_append :: "logline list \<Rightarrow> app \<Rightarrow> app" where
  "log_append ls st = st\<lparr>log_edit := log_edit st @ ls\<rparr>"

definition show_dialog :: "dialog \<Rightarrow> app \<Rightarrow> app" where
  "show_dialog d st = st\<lparr>dialogs := dialogs st @ [d]\<rparr>"

definition called :: "libcall \<Rightarrow> app \<Rightarrow> app" where
  "called c st = st\<lparr>lib_calls := lib_calls st @ [c]\<rparr>"

text \<open>
  \<^verbatim>\<open>str.strip()\<close>. A \<open>char\<close> is a code point below 256; the white space of Python
  among them is tab to carriage return, the separators \<open>0x1c\<close> to \<open>0x1f\<close>, the space,
  NEXT LINE (\<open>0x85\<close>) and NO-BREAK SPACE (\<open>0xa0\<close>). Code points from 256 on are not
  values of the type.
\<close>

definition is_space :: "char \<Rightarrow> bool" where
  "is_space c =
     (let n = (of_char c :: nat)
      in (9 \<le> n \<and> n \<le> 13) \<or> (28 \<le> n \<and> n \<le> 32) \<or> n = 133 \<or> n = 160)"

definition strip :: "string \<Rightarrow> string" where
  "strip s = rev (dropWhile is_space (rev (dropWhile is_space s)))"

definition endswith :: "string \<Rightarrow> string \<Rightarrow> bool" where
  "endswith s suf = (length suf \<le> length s \<and> drop (length s - length suf) s = suf)"

section \<open>Normalising the model output\<close>

text \<open>
  \<^verbatim>\<open>_extract_prediction_value\<close>: the value, and the lines it appends to the log. Any
  exception of the \<^verbatim>\<open>try\<close> block is caught; the handler logs it and returns \<open>0.5\<close>.
\<close>

definition extract_prediction_value :: "pyobj \<Rightarrow> real \<times> logline list" where
  "extract_prediction_value pred =
     (case extract_try pred of
        Inr v \<Rightarrow> (v, [])
      | Inl e \<Rightarrow> (0.5, [Log_extract_default e]))"

section \<open>The history\<close>

text \<open>The slice \<^verbatim>\<open>xs[-n:]\<close> for a positive \<open>n\<close>: the last \<open>n\<close> elements, all of a shorter list.\<close>

definition last_n :: "nat \<Rightarrow> 'a list \<Rightarrow> 'a list" where
  "last_n n xs = drop (length xs - n) xs"

definition shown :: "entry \<Rightarrow> string \<times> string \<times> real \<times> real" where
  "shown r = (timestamp r, take 50 (h_smiles r), h_prediction r, h_confidence r)"

definition update_history_display :: "app \<Rightarrow> app" where
  "update_history_display st =
     (if prediction_history st = [] then st\<lparr>history_display := No_history\<rparr>
      else st\<lparr>history_display := History_table (map shown (last_n 20 (prediction_history st)))\<rparr>)"

definition add_to_history :: "lib \<Rightarrow> string \<Rightarrow> real \<Rightarrow> real \<Rightarrow> app \<Rightarrow> app" where
  "add_to_history L smiles prediction confidence st =
     update_history_display
       (st\<lparr>prediction_history := prediction_history st @
              [\<lparr>timestamp = strftime_now L (ticks st), h_smiles = smiles,
                h_prediction = prediction, h_confidence = confidence\<rparr>],
            ticks := Suc (ticks st)\<rparr>)"

definition clear_history :: "app \<Rightarrow> app" where
  "clear_history st =
     log_append [Log_history_cleared] (update_history_display (st\<lparr>prediction_history := []\<rparr>))"

text \<open>\<^verbatim>\<open>pd.DataFrame(self.prediction_history)\<close>: the keys of the dictionaries as columns.\<close>

definition entry_cells :: "entry \<Rightarrow> cell list" where
  "entry_cells r = [CStr (timestamp r), CStr (h_smiles r), CNum (h_prediction r), CNum (h_confidence r)]"

definition DataFrame :: "entry list \<Rightarrow> table" where
  "DataFrame h =
     \<lparr>columns = (if h = [] then [] else [''timestamp'', ''smiles'', ''prediction'', ''confidence'']),
      rows = map entry_cells h\<rparr>"

text \<open>
  \<^verbatim>\<open>export_history\<close>. \<open>file_path\<close> is the answer of the save dialog, empty when the user
  cancels. The write is not inside a \<^verbatim>\<open>try\<close>: an exception of \<^verbatim>\<open>to_csv\<close> leaves the
  method (\<open>Inl\<close>).
\<close>

definition export_history :: "lib \<Rightarrow> string \<Rightarrow> app \<Rightarrow> pyexc + app" where
  "export_history L file_path st =
     (if prediction_history st = [] then Inr (show_dialog Warn_no_history st)
      else if file_path \<noteq> [] then
        (let df = DataFrame (prediction_history st) in
         case to_csv L file_path df of
           Some e \<Rightarrow> Inl e
         | None \<Rightarrow>
             Inr (show_dialog Info_exported
                    (log_append [Log_exported file_path]
                       (st\<lparr>files := files st @ [(file_path, df)]\<rparr>))))
      else Inr st)"

section \<open>Loading and unloading the model\<close>

text \<open>
  \<^verbatim>\<open>not self.model\<close>, the guard of both prediction methods: true without a model;
  with one, Python asks the object for its truth value, which can raise.
\<close>

definition not_model :: "model option \<Rightarrow> pyexc + bool" where
  "not_model mo =
     (case mo of
        None \<Rightarrow> Inr True
      | Some m \<Rightarrow> (case truth m of Inl e \<Rightarrow> Inl e | Inr b \<Rightarrow> Inr (\<not> b)))"

definition unload_model :: "app \<Rightarrow> app" where
  "unload_model st =
     log_append [Log_model_unloaded]
       (st\<lparr>model := None, model_path := None,
            predict_single_btn := False, batch_predict_btn := False,
            model_info_display := None\<rparr>)"

text \<open>
  \<^verbatim>\<open>refresh_model_info\<close>: \<^verbatim>\<open>if self.model:\<close> asks for the truth value too, outside any
  \<^verbatim>\<open>try\<close> of its own.
\<close>

definition refresh_model_info :: "app \<Rightarrow> pyexc + app" where
  "refresh_model_info st =
     (case not_model (model st) of
        Inl e \<Rightarrow> Inl e
      | Inr True \<Rightarrow> Inr st
      | Inr False \<Rightarrow>
          Inr (st\<lparr>model_info_display :=
                    (case model_path st of
                       None \<Rightarrow> Some ([], False)
                     | Some p \<Rightarrow> Some (p, endswith p ''.ckpt''))\<rparr>))"

text \<open>
  \<^verbatim>\<open>load_model\<close>. The model, its path and the buttons are set before
  \<^verbatim>\<open>refresh_model_info\<close> runs, inside the \<^verbatim>\<open>try\<close>: when that call raises, the handler
  reports a failure and the model stays loaded.
\<close>

definition load_model :: "lib \<Rightarrow> app \<Rightarrow> pyexc + app" where
  "load_model L st =
     (let path = strip (model_path_edit st) in
      if path = [] then Inr (show_dialog Warn_choose_model_file st)
      else
        (let st1 = log_append [Log_loading] st in
         case (if endswith path ''.ckpt'' then load_from_checkpoint L path else torch_load L path) of
           Inl e \<Rightarrow> Inr (show_dialog (Critical_load_failed e) (log_append [Log_load_failed e] st1))
         | Inr m \<Rightarrow>
             (let st2 = st1\<lparr>model := Some m, model_path := Some path,
                             predict_single_btn := True, batch_predict_btn := True\<rparr> in
              case refresh_model_info st2 of
                Inl e \<Rightarrow> Inr (show_dialog (Critical_load_failed e) (log_append [Log_load_failed e] st2))
              | Inr st3 \<Rightarrow> Inr (show_dialog Info_model_loaded (log_append [Log_loaded] st3)))))"

section \<open>Featurization and inference\<close>

text \<open>
  The construction both prediction methods start with: the featurizer, the datapoint from
  the string, the dataset and its loader. It raises when \<^verbatim>\<open>from_smi\<close> does.
\<close>

definition primary_loader :: "lib \<Rightarrow> string \<Rightarrow> pyexc + loader" where
  "primary_loader L smiles =
     (let featurizer = SimpleMoleculeMolGraphFeaturizer in
      case from_smi L smiles of
        Inl e \<Rightarrow> Inl e
      | Inr dp \<Rightarrow>
          (let batch = MoleculeDataset [dp] (Some featurizer)
           in Inr (build_dataloader batch)))"

text \<open>The forward pass and \<^verbatim>\<open>np.concatenate(test_preds, axis=0)\<close>.\<close>

definition infer :: "lib \<Rightarrow> model \<Rightarrow> loader \<Rightarrow> pyexc + nd" where
  "infer L m ld =
     (case trainer_predict L m ld of
        Inl e \<Rightarrow> Inl e
      | Inr test_preds \<Rightarrow> np_concatenate test_preds)"

section \<open>Predicting one molecule\<close>

definition display_single_result :: "string \<Rightarrow> real \<Rightarrow> real \<Rightarrow> app \<Rightarrow> app" where
  "display_single_result smiles prediction confidence st =
     (let antibiotic = (prediction > 0.5) in
      st\<lparr>result_table :=
           [\<lparr>row_smiles = smiles, row_prediction = Score prediction,
             row_confidence = confidence, is_antibiotic = antibiotic,
             herb_type = (if antibiotic then Antibiotic else Non_antibiotic)\<rparr>]\<rparr>)"

text \<open>
  The \<^verbatim>\<open>try\<close> block of \<^verbatim>\<open>predict_single_molecule\<close>: the exception that leaves it,
  if any, and the state reached. The fallback constructions are commented out in this
  method, so an exception of the primary construction leaves the block.
\<close>

definition single_try :: "lib \<Rightarrow> model \<Rightarrow> string \<Rightarrow> app \<Rightarrow> pyexc option \<times> app" where
  "single_try L m smiles st =
     (let st1 = called (Featurization smiles) (log_append [Log_analysing (take 50 smiles)] st) in
      case primary_loader L smiles of
        Inl e \<Rightarrow> (Some e, st1)
      | Inr ld \<Rightarrow>
          (let st2 = called Inference st1 in
           case infer L m ld of
             Inl e \<Rightarrow> (Some e, st2)
           | Inr pred \<Rightarrow>
               (let (pred_value, lines) = extract_prediction_value (NdArray pred);
                    st3 = log_append lines st2;
                    st4 = add_to_history L smiles pred_value 0.95 st3;
                    st5 = display_single_result smiles pred_value 0.95 st4
                in (None, log_append [Log_predicted pred_value] st5))))"

text \<open>
  \<^verbatim>\<open>predict_single_molecule\<close>: the guard on the string comes before the guard on the
  model, and both come before the \<^verbatim>\<open>try\<close>, so an exception of the truth value of the
  model leaves the method. \<^verbatim>\<open>except Exception\<close> turns every exception of the block
  into a log line and a message box.
\<close>

definition predict_single_molecule :: "lib \<Rightarrow> app \<Rightarrow> pyexc + app" where
  "predict_single_molecule L st =
     (let smiles = strip (smiles_input st) in
      if smiles = [] then Inr (show_dialog Warn_enter_smiles st)
      else
        (case model st of
           None \<Rightarrow> Inr (show_dialog Warn_load_model_first st)
         | Some m \<Rightarrow>
             (case truth m of
                Inl e \<Rightarrow> Inl e
              | Inr False \<Rightarrow> Inr (show_dialog Warn_load_model_first st)
              | Inr True \<Rightarrow>
                  (case single_try L m smiles st of
                     (None, st') \<Rightarrow> Inr st'
                   | (Some e, st') \<Rightarrow>
                       Inr (show_dialog (Critical_prediction_failed e)
                              (log_append [Log_predict_failed e] st'))))))"

section \<open>Predicting a batch\<close>

text \<open>
  The fallback of \<^verbatim>\<open>run_prediction\<close>. The inner \<^verbatim>\<open>try\<close> parses the string with
  RDKit and raises \<^verbatim>\<open>ValueError\<close> on \<^verbatim>\<open>None\<close>; its bare \<^verbatim>\<open>except\<close> calls the
  constructor without argument, and would assign the string to the \<^verbatim>\<open>smiles\<close> attribute
  of the result.
\<close>

definition fallback_mol :: "lib \<Rightarrow> string \<Rightarrow> pyexc + dataset" where
  "fallback_mol L smiles =
     (case MolFromSmiles L smiles of
        None \<Rightarrow> Inl ValueError
      | Some mol \<Rightarrow> Inr (MoleculeDataset [MoleculeDatapoint mol None] None))"

definition fallback_forced :: "string \<Rightarrow> pyexc + dataset" where
  "fallback_forced smiles =
     (case MoleculeDatapoint_no_argument of
        Inl e \<Rightarrow> Inl e
      | Inr dp \<Rightarrow> Inr (MoleculeDataset [dp\<lparr>dp_smiles := Some smiles\<rparr>] None))"

definition fallback_dataset :: "lib \<Rightarrow> string \<Rightarrow> pyexc + dataset" where
  "fallback_dataset L smiles =
     (case fallback_mol L smiles of
        Inr batch \<Rightarrow> Inr batch
      | Inl e \<Rightarrow> fallback_forced smiles)"

text \<open>
  What the featurization of one batch item ends with: the loader of the primary
  construction, bound to \<^verbatim>\<open>test_loader\<close>, or the dataset of a fallback, bound to
  \<^verbatim>\<open>batch\<close> only. \<^verbatim>\<open>except TypeError\<close> lets every other exception through.
\<close>

datatype featurized = Primary loader | Fallback dataset

definition featurize_item :: "lib \<Rightarrow> string \<Rightarrow> pyexc + featurized" where
  "featurize_item L smiles =
     (case primary_loader L smiles of
        Inr ld \<Rightarrow> Inr (Primary ld)
      | Inl e \<Rightarrow>
          (if e = TypeError
           then (case fallback_dataset L smiles of
                   Inl e' \<Rightarrow> Inl e'
                 | Inr batch \<Rightarrow> Inr (Fallback batch))
           else Inl e))"

text \<open>
  The body of the \<^verbatim>\<open>try\<close> of one iteration, up to \<^verbatim>\<open>pred_value\<close>: the value or the
  exception that leaves it, the local \<^verbatim>\<open>test_loader\<close> afterwards (\<open>None\<close> while unbound),
  and the log lines and pipeline steps it adds. \<open>prev\<close> is \<^verbatim>\<open>test_loader\<close> as the previous
  iterations left it.
\<close>

record item_result =
  outcome :: "pyexc + real"
  loader_after :: "loader option"
  item_log :: "logline list"
  item_calls :: "libcall list"

definition item_try :: "lib \<Rightarrow> model \<Rightarrow> string \<Rightarrow> loader option \<Rightarrow> item_result" where
  "item_try L m smiles prev =
     (case featurize_item L smiles of
        Inl e \<Rightarrow>
          \<lparr>outcome = Inl e, loader_after = prev, item_log = [],
           item_calls = [Featurization smiles]\<rparr>
      | Inr f \<Rightarrow>
          (let cur = (case f of Primary ld \<Rightarrow> Some ld | Fallback batch \<Rightarrow> prev) in
           case cur of
             None \<Rightarrow>
               \<lparr>outcome = Inl UnboundLocalError, loader_after = cur, item_log = [],
                item_calls = [Featurization smiles]\<rparr>
           | Some ld \<Rightarrow>
               (case infer L m ld of
                  Inl e \<Rightarrow>
                    \<lparr>outcome = Inl e, loader_after = cur, item_log = [],
                     item_calls = [Featurization smiles, Inference]\<rparr>
                | Inr pred \<Rightarrow>
                    (let (pred_value, lines) = extract_prediction_value (NdArray pred) in
                     \<lparr>outcome = Inr pred_value, loader_after = cur, item_log = lines,
                      item_calls = [Featurization smiles, Inference]\<rparr>))))"

definition ok_row :: "string \<Rightarrow> real \<Rightarrow> row" where
  "ok_row smiles pred_value =
     (let antibiotic = (pred_value > 0.5) in
      \<lparr>row_smiles = smiles, row_prediction = Score pred_value, row_confidence = 0.95,
       is_antibiotic = antibiotic,
       herb_type = (if antibiotic then Antibiotic else Non_antibiotic)\<rparr>)"

definition error_row :: "string \<Rightarrow> row" where
  "error_row smiles =
     \<lparr>row_smiles = smiles, row_prediction = ERROR, row_confidence = 0.0,
      is_antibiotic = False, herb_type = Prediction_failed\<rparr>"

text \<open>
  The loop of \<^verbatim>\<open>run_prediction\<close> over \<^verbatim>\<open>enumerate(smiles_list)\<close>. Each iteration
  appends one row: the one of the \<^verbatim>\<open>try\<close> block, or the one of its
  \<^verbatim>\<open>except Exception\<close>.
\<close>

record loop_state =
  ls_app :: app
  test_loader :: "loader option"
  predictions :: "row list"

definition batch_item :: "lib \<Rightarrow> model \<Rightarrow> nat \<Rightarrow> nat \<Rightarrow> string \<Rightarrow> loop_state \<Rightarrow> loop_state" where
  "batch_item L m total_molecules i smiles ls =
     (let r = item_try L m smiles (test_loader ls);
          st1 = (ls_app ls)\<lparr>lib_calls := lib_calls (ls_app ls) @ item_calls r\<rparr>
      in case outcome r of
           Inr pred_value \<Rightarrow>
             \<lparr>ls_app = log_append
                 (item_log r @ [Log_item (i + 1) total_molecules pred_value (herb_type (ok_row smiles pred_value))])
                 st1,
              test_loader = loader_after r,
              predictions = predictions ls @ [ok_row smiles pred_value]\<rparr>
         | Inl e \<Rightarrow>
             \<lparr>ls_app = log_append (item_log r @ [Log_item_failed (i + 1) e]) st1,
              test_loader = loader_after r,
              predictions = predictions ls @ [error_row smiles]\<rparr>)"

fun run_loop :: "lib \<Rightarrow> model \<Rightarrow> nat \<Rightarrow> nat \<Rightarrow> string list \<Rightarrow> loop_state \<Rightarrow> loop_state" where
  "run_loop L m total_molecules i [] ls = ls"
| "run_loop L m total_molecules i (smiles # rest) ls =
     run_loop L m total_molecules (Suc i) rest (batch_item L m total_molecules i smiles ls)"

definition display_batch_results :: "row list \<Rightarrow> app \<Rightarrow> app" where
  "display_batch_results ps st = st\<lparr>result_table := ps\<rparr>"

text \<open>The pass over \<^verbatim>\<open>predictions\<close> that adds to the history every row not tagged \<^verbatim>\<open>'ERROR'\<close>.\<close>

fun add_all_to_history :: "lib \<Rightarrow> row list \<Rightarrow> app \<Rightarrow> app" where
  "add_all_to_history L [] st = st"
| "add_all_to_history L (p # ps) st =
     add_all_to_history L ps
       (case row_prediction p of
          Score v \<Rightarrow> add_to_history L (row_smiles p) v (row_confidence p) st
        | ERROR \<Rightarrow> st)"

definition batch_failed :: "pyexc \<Rightarrow> app \<Rightarrow> app" where
  "batch_failed e st = show_dialog (Critical_batch_failed e) (log_append [Log_batch_failed e] st)"

text \<open>
  \<^verbatim>\<open>run_prediction\<close>. Its two guards come before the \<^verbatim>\<open>try\<close>, as in
  \<^verbatim>\<open>predict_single_molecule\<close>. The percentage of the summary divides by the number of
  rows, so an empty list ends in the outer handler, after the results are shown.
\<close>

definition run_prediction :: "lib \<Rightarrow> app \<Rightarrow> pyexc + app" where
  "run_prediction L st =
     (let test_file = strip (test_edit st) in
      if test_file = [] then Inr (show_dialog Warn_choose_test_file st)
      else
        (case model st of
           None \<Rightarrow> Inr (show_dialog Warn_load_model_first st)
         | Some m \<Rightarrow>
             (case truth m of
                Inl e \<Rightarrow> Inl e
              | Inr False \<Rightarrow> Inr (show_dialog Warn_load_model_first st)
              | Inr True \<Rightarrow>
                  (let st1 = log_append [Log_batch_start] st in
                   case read_csv L test_file of
                     Inl e \<Rightarrow> Inr (batch_failed e st1)
                   | Inr None \<Rightarrow> Inr (show_dialog Warn_no_smiles_column st1)
                   | Inr (Some smiles_list) \<Rightarrow>
                       (let total_molecules = length smiles_list;
                            st2 = log_append [Log_batch_count total_molecules] st1;
                            ls = run_loop L m total_molecules 0 smiles_list
                                   \<lparr>ls_app = st2, test_loader = None, predictions = []\<rparr>;
                            st3 = display_batch_results (predictions ls) (ls_app ls);
                            st4 = add_all_to_history L (predictions ls) st3;
                            total = length (predictions ls);
                            antibiotics = length (filter is_antibiotic (predictions ls));
                            errors = length (filter (\<lambda>p. row_prediction p = ERROR) (predictions ls));
                            st5 = log_append [Log_batch_finished, Log_total total] st4
                        in if total = 0 then Inr (batch_failed ZeroDivisionError st5)
                           else Inr (show_dialog (Info_batch_done total antibiotics)
                                       (log_append [Log_antibiotics antibiotics, Log_errors errors] st5)))))))"

section \<open>A concrete scenario\<close>

text \<open>
  A library in which RDKit parses every string but \<^verbatim>\<open>not-a-molecule\<close> and the network
  answers \<open>0.9\<close>, and a window with a loaded network and an empty history. The test file
  holds the two strings of the scenario of the specification.
\<close>

definition aspirin :: string where
  "aspirin = ''CC(=O)OC1=CC=CC=C1C(=O)O''"

definition network :: model where
  "network = Loaded ''model.ckpt'' (Inr True)"

definition lib_demo :: lib where
  "lib_demo =
     \<lparr>MolFromSmiles = (\<lambda>s. if s = ''not-a-molecule'' then None else Some (Mol s)),
      trainer_predict = (\<lambda>m ld. Inr [Dim [Dim [Elem (9 / 10)]]]),
      load_from_checkpoint = (\<lambda>p. Inr (Loaded p (Inr True))),
      torch_load = (\<lambda>p. Inr (Loaded p (Inr True))),
      read_csv = (\<lambda>p. Inr (Some [aspirin, ''not-a-molecule''])),
      to_csv = (\<lambda>p t. None),
      strftime_now = (\<lambda>n. ''2025-01-01 00:00:00'')\<rparr>"

definition st_demo :: app where
  "st_demo =
     \<lparr>model = Some network, model_path = Some ''model.ckpt'',
      prediction_history = [], smiles_input = aspirin, test_edit = ''test.csv'',
      model_path_edit = ''model.ckpt'', predict_single_btn = True, batch_predict_btn = True,
      result_table = [], history_display = No_history,
      model_info_display = Some (''model.ckpt'', True), log_edit = [], dialogs = [],
      lib_calls = [], files = [], ticks = 0\<rparr>"


definition st_bad :: app where
  "st_bad = st_demo\<lparr>smiles_input := ''not-a-molecule''\<rparr>"

definition lib_empty_output :: lib where
  "lib_empty_output = lib_demo\<lparr>trainer_predict := (\<lambda>m ld. Inr [Dim []])\<rparr>"

definition lib_readonly :: lib where
  "lib_readonly = lib_demo\<lparr>to_csv := (\<lambda>p t. Some OSError)\<rparr>"

definition st_one :: app where
  "st_one =
     st_demo\<lparr>prediction_history :=
       [\<lparr>timestamp = ''2025-01-01 00:00:00'', h_smiles = aspirin,
         h_prediction = 9 / 10, h_confidence = 95 / 100\<rparr>]\<rparr>"

definition st_blank :: app where
  "st_blank = st_demo\<lparr>smiles_input := ''''\<rparr>"

definition st_nbsp :: app where
  "st_nbsp = st_demo\<lparr>smiles_input := [CHR 0xA0]\<rparr>"

definition history21 :: "entry list" where
  "history21 =
     map (\<lambda>n. \<lparr>timestamp = ''2025-01-01 00:00:00'', h_smiles = replicate (Suc n) CHR ''C'',
                h_prediction = 9 / 10, h_confidence = 95 / 100\<rparr>) [0..<21]"

definition st_long :: app where
  "st_long = st_demo\<lparr>prediction_history := history21\<rparr>"

section \<open>Frame lemmas and the rows of the loop\<close>

lemma log_append_simps [simp]:
  "prediction_history (log_append ls st) = prediction_history st"
  "result_table (log_append ls st) = result_table st"
  "model (log_append ls st) = model st"
  "lib_calls (log_append ls st) = lib_calls st"
  "dialogs (log_append ls st) = dialogs st"
  "files (log_append ls st) = files st"
  "ticks (log_append ls st) = ticks st"
  "smiles_input (log_append ls st) = smiles_input st"
  "test_edit (log_append ls st) = test_edit st"
  "log_edit (log_append ls st) = log_edit st @ ls"
  by (simp_all add: log_append_def)

lemma show_dialog_simps [simp]:
  "prediction_history (show_dialog d st) = prediction_history st"
  "result_table (show_dialog d st) = result_table st"
  "model (show_dialog d st) = model st"
  "lib_calls (show_dialog d st) = lib_calls st"
  "dialogs (show_dialog d st) = dialogs st @ [d]"
  "files (show_dialog d st) = files st"
  "ticks (show_dialog d st) = ticks st"
  "log_edit (show_dialog d st) = log_edit st"
  by (simp_all add: show_dialog_def)

lemma update_history_display_simps [simp]:
  "prediction_history (update_history_display st) = prediction_history st"
  "result_table (update_history_display st) = result_table st"
  "model (update_history_display st) = model st"
  "lib_calls (update_history_display st) = lib_calls st"
  "dialogs (update_history_display st) = dialogs st"
  "files (update_history_display st) = files st"
  "ticks (update_history_display st) = ticks st"
  "log_edit (update_history_display st) = log_edit st"
  by (simp_all add: update_history_display_def)

lemma add_to_history_simps [simp]:
  "prediction_history (add_to_history L s v c st) = prediction_history st @
     [\<lparr>timestamp = strftime_now L (ticks st), h_smiles = s, h_prediction = v, h_confidence = c\<rparr>]"
  "result_table (add_to_history L s v c st) = result_table st"
  "model (add_to_history L s v c st) = model st"
  "lib_calls (add_to_history L s v c st) = lib_calls st"
  "dialogs (add_to_history L s v c st) = dialogs st"
  "files (add_to_history L s v c st) = files st"
  "ticks (add_to_history L s v c st) = Suc (ticks st)"
  "log_edit (add_to_history L s v c st) = log_edit st"
  by (simp_all add: add_to_history_def)

lemma batch_item_predictions:
  "predictions (batch_item L m t i s ls) =
     predictions ls @ [case outcome (item_try L m s (test_loader ls)) of
                         Inr v \<Rightarrow> ok_row s v | Inl e \<Rightarrow> error_row s]"
  by (simp add: batch_item_def Let_def split: sum.splits)

lemma batch_item_test_loader:
  "test_loader (batch_item L m t i s ls) = loader_after (item_try L m s (test_loader ls))"
  by (simp add: batch_item_def Let_def split: sum.splits)

lemma batch_item_app [simp]:
  "prediction_history (ls_app (batch_item L m t i s ls)) = prediction_history (ls_app ls)"
  "ticks (ls_app (batch_item L m t i s ls)) = ticks (ls_app ls)"
  "dialogs (ls_app (batch_item L m t i s ls)) = dialogs (ls_app ls)"
  "files (ls_app (batch_item L m t i s ls)) = files (ls_app ls)"
  "model (ls_app (batch_item L m t i s ls)) = model (ls_app ls)"
  by (simp_all add: batch_item_def Let_def split: sum.splits)

lemma run_loop_app [simp]:
  "prediction_history (ls_app (run_loop L m t i ss ls)) = prediction_history (ls_app ls)"
  "ticks (ls_app (run_loop L m t i ss ls)) = ticks (ls_app ls)"
  "dialogs (ls_app (run_loop L m t i ss ls)) = dialogs (ls_app ls)"
  "files (ls_app (run_loop L m t i ss ls)) = files (ls_app ls)"
  "model (ls_app (run_loop L m t i ss ls)) = model (ls_app ls)"
  by (induction ss arbitrary: i ls; simp)+

lemma run_loop_predictions_length:
  "length (predictions (run_loop L m t i ss ls)) = length (predictions ls) + length ss"
  by (induction ss arbitrary: i ls) (simp_all add: batch_item_predictions)

lemma row_smiles_item [simp]:
  "row_smiles (case r of Inr v \<Rightarrow> ok_row s v | Inl e \<Rightarrow> error_row s) = s"
  by (simp add: ok_row_def error_row_def Let_def split: sum.splits)

lemma run_loop_smiles:
  "map row_smiles (predictions (run_loop L m t i ss ls)) = map row_smiles (predictions ls) @ ss"
  by (induction ss arbitrary: i ls) (simp_all add: batch_item_predictions)

lemma display_batch_results_simps [simp]:
  "prediction_history (display_batch_results ps st) = prediction_history st"
  "result_table (display_batch_results ps st) = ps"
  "lib_calls (display_batch_results ps st) = lib_calls st"
  "dialogs (display_batch_results ps st) = dialogs st"
  "ticks (display_batch_results ps st) = ticks st"
  by (simp_all add: display_batch_results_def)

lemma batch_failed_simps [simp]:
  "prediction_history (batch_failed e st) = prediction_history st"
  "result_table (batch_failed e st) = result_table st"
  by (simp_all add: batch_failed_def)

lemma add_all_to_history_result_table [simp]:
  "result_table (add_all_to_history L ps st) = result_table st"
  by (induction ps arbitrary: st) (simp_all split: pred.splits)

lemma add_all_to_history_entries:
  "\<exists>new. prediction_history (add_all_to_history L ps st) = prediction_history st @ new
     \<and> map (\<lambda>e. (h_smiles e, Score (h_prediction e), h_confidence e)) new =
       map (\<lambda>p. (row_smiles p, row_prediction p, row_confidence p))
         (filter (\<lambda>p. row_prediction p \<noteq> ERROR) ps)"
proof (induction ps arbitrary: st)
  case Nil
  then show ?case by simp
next
  case (Cons p ps)
  show ?case
  proof (cases "row_prediction p")
    case (Score v)
    obtain new where new: "prediction_history (add_all_to_history L ps (add_to_history L (row_smiles p) v (row_confidence p) st)) =
        prediction_history (add_to_history L (row_smiles p) v (row_confidence p) st) @ new"
      and m: "map (\<lambda>e. (h_smiles e, Score (h_prediction e), h_confidence e)) new =
       map (\<lambda>p. (row_smiles p, row_prediction p, row_confidence p))
         (filter (\<lambda>p. row_prediction p \<noteq> ERROR) ps)"
      using Cons.IH by blast
    show ?thesis
      using Score new m
      by (intro exI [of _ "\<lparr>timestamp = strftime_now L (ticks st), h_smiles = row_smiles p,
            h_prediction = v, h_confidence = row_confidence p\<rparr> # new"]) simp
  next
    case ERROR
    then show ?thesis using Cons.IH [of st] by simp
  qed
qed

lemma not_model_loaded:
  assumes "model st = Some m" and "truth m = Inr True"
  shows "not_model (model st) = Inr False"
  using assms by (simp add: not_model_def)

lemma run_prediction_loaded:
  assumes "strip (test_edit st) \<noteq> []" and "model st = Some m" and "truth m = Inr True"
    and "read_csv L (strip (test_edit st)) = Inr (Some ss)"
  shows "\<exists>st'. run_prediction L st = Inr st'
      \<and> result_table st' =
          predictions (run_loop L m (length ss) 0 ss
               \<lparr>ls_app = log_append [Log_batch_count (length ss)] (log_append [Log_batch_start] st),
                test_loader = None, predictions = []\<rparr>)
      \<and> prediction_history st' =
          prediction_history (add_all_to_history L
             (predictions (run_loop L m (length ss) 0 ss
               \<lparr>ls_app = log_append [Log_batch_count (length ss)] (log_append [Log_batch_start] st),
                test_loader = None, predictions = []\<rparr>))
             (display_batch_results
                (predictions (run_loop L m (length ss) 0 ss
                  \<lparr>ls_app = log_append [Log_batch_count (length ss)] (log_append [Log_batch_start] st),
                   test_loader = None, predictions = []\<rparr>))
                (ls_app (run_loop L m (length ss) 0 ss
                  \<lparr>ls_app = log_append [Log_batch_count (length ss)] (log_append [Log_batch_start] st),
                   test_loader = None, predictions = []\<rparr>))))"
  using assms by (simp add: run_prediction_def Let_def)

lemma strip_test_csv: "strip ''test.csv'' = ''test.csv''"
  by (simp add: strip_def is_space_def)

lemma demo_item_aspirin:
  "item_try lib_demo m aspirin prev =
     \<lparr>outcome = Inr (9 / 10),
      loader_after = Some (DataLoader (MoleculeDataset [MoleculeDatapoint (Mol aspirin) (Some aspirin)]
                             (Some SimpleMoleculeMolGraphFeaturizer))),
      item_log = [], item_calls = [Featurization aspirin, Inference]\<rparr>"
  by (simp add: item_try_def featurize_item_def primary_loader_def from_smi_def
      build_dataloader_def lib_demo_def aspirin_def
      infer_def np_concatenate_def extract_prediction_value_def flat0_def)

lemma demo_item_bad:
  "item_try lib_demo m ''not-a-molecule'' prev =
     \<lparr>outcome = Inl RuntimeError, loader_after = prev,
      item_log = [], item_calls = [Featurization ''not-a-molecule'']\<rparr>"
  by (simp add: item_try_def featurize_item_def primary_loader_def from_smi_def lib_demo_def)

lemma demo_rows:
  "predictions (run_loop lib_demo m t 0 [aspirin, ''not-a-molecule'']
       \<lparr>ls_app = st, test_loader = None, predictions = []\<rparr>) =
     [ok_row aspirin (9 / 10), error_row ''not-a-molecule'']"
  by (simp add: batch_item_predictions batch_item_test_loader demo_item_aspirin demo_item_bad)

lemma demo_guards:
  "strip (test_edit st_demo) \<noteq> []"
  "model st_demo = Some network"
  "truth network = Inr True"
  "read_csv lib_demo (strip (test_edit st_demo)) = Inr (Some [aspirin, ''not-a-molecule''])"
  by (simp_all add: st_demo_def strip_test_csv lib_demo_def network_def)

lemma demo_run:
  "\<exists>st'. run_prediction lib_demo st_demo = Inr st' \<and> result_table st' = [ok_row aspirin (9 / 10), error_row ''not-a-molecule'']"
proof -
  obtain st' where "run_prediction lib_demo st_demo = Inr st'"
    and "result_table st' = predictions (run_loop lib_demo network
          (length [aspirin, ''not-a-molecule'']) 0 [aspirin, ''not-a-molecule'']
          \<lparr>ls_app = log_append [Log_batch_count (length [aspirin, ''not-a-molecule''])]
                     (log_append [Log_batch_start] st_demo),
           test_loader = None, predictions = []\<rparr>)"
    using run_prediction_loaded [OF demo_guards] by blast
  then show ?thesis unfolding demo_rows by blast
qed


lemma primary_loader_parse:
  "primary_loader L s =
     (case MolFromSmiles L s of
        None \<Rightarrow> Inl RuntimeError
      | Some mol \<Rightarrow>
          Inr (DataLoader (MoleculeDataset [MoleculeDatapoint mol (Some s)]
                 (Some SimpleMoleculeMolGraphFeaturizer))))"
  by (simp add: primary_loader_def from_smi_def build_dataloader_def split: option.splits)

lemma primary_loader_not_TypeError:
  "primary_loader L s \<noteq> Inl TypeError"
  by (simp add: primary_loader_parse split: option.splits)

lemma featurize_item_primary:
  "featurize_item L s =
     (case primary_loader L s of Inl e \<Rightarrow> Inl e | Inr ld \<Rightarrow> Inr (Primary ld))"
  using primary_loader_not_TypeError [of L s]
  by (cases "primary_loader L s") (simp_all add: featurize_item_def)



lemma run_loop_rows_shape:
  "p \<in> set (predictions (run_loop L m t i ss ls)) \<Longrightarrow>
   p \<in> set (predictions ls) \<or> (\<exists>s v. p = ok_row s v) \<or> (\<exists>s. p = error_row s)"
proof (induction ss arbitrary: i ls)
  case Nil
  then show ?case by simp
next
  case (Cons s ss)
  from Cons.IH [of "Suc i" "batch_item L m t i s ls"] Cons.prems
  have "p \<in> set (predictions (batch_item L m t i s ls)) \<or> (\<exists>s v. p = ok_row s v) \<or> (\<exists>s. p = error_row s)"
    by simp
  then show ?case
    by (auto simp: batch_item_predictions split: sum.splits)
qed

lemma run_prediction_rows:
  assumes "strip (test_edit st) \<noteq> []" and "model st = Some m" and "truth m = Inr True"
    and "read_csv L (strip (test_edit st)) = Inr (Some ss)"
  shows "\<exists>st' new. run_prediction L st = Inr st'
      \<and> (\<forall>p\<in>set (result_table st'). (\<exists>s v. p = ok_row s v) \<or> (\<exists>s. p = error_row s))
      \<and> prediction_history st' = prediction_history st @ new
      \<and> map (\<lambda>e. (h_smiles e, Score (h_prediction e), h_confidence e)) new =
          map (\<lambda>p. (row_smiles p, row_prediction p, row_confidence p))
            (filter (\<lambda>p. row_prediction p \<noteq> ERROR) (result_table st'))"
proof -
  let ?init = "\<lparr>ls_app = log_append [Log_batch_count (length ss)] (log_append [Log_batch_start] st),
                test_loader = None, predictions = []\<rparr>"
  let ?ls = "run_loop L m (length ss) 0 ss ?init"
  obtain st' where run: "run_prediction L st = Inr st'"
    and tab: "result_table st' = predictions ?ls"
    and hist: "prediction_history st' =
          prediction_history (add_all_to_history L (predictions ?ls)
             (display_batch_results (predictions ?ls) (ls_app ?ls)))"
    using run_prediction_loaded [OF assms] by (elim exE conjE) (rule that, assumption+)
  obtain new where new: "prediction_history (add_all_to_history L (predictions ?ls)
             (display_batch_results (predictions ?ls) (ls_app ?ls))) =
        prediction_history (display_batch_results (predictions ?ls) (ls_app ?ls)) @ new"
    and m: "map (\<lambda>e. (h_smiles e, Score (h_prediction e), h_confidence e)) new =
          map (\<lambda>p. (row_smiles p, row_prediction p, row_confidence p))
            (filter (\<lambda>p. row_prediction p \<noteq> ERROR) (predictions ?ls))"
    using add_all_to_history_entries [of L "predictions ?ls" "display_batch_results (predictions ?ls) (ls_app ?ls)"]
    by (elim exE conjE) (rule that, assumption+)
  have shape: "(\<exists>s v. p = ok_row s v) \<or> (\<exists>s. p = error_row s)" if "p \<in> set (predictions ?ls)" for p
    using run_loop_rows_shape [OF that] by simp
  have h: "prediction_history st' = prediction_history st @ new"
    unfolding hist new by simp
  show ?thesis
  proof (intro exI [of _ st'] exI [of _ new] conjI ballI)
    show "run_prediction L st = Inr st'" by (rule run)
    show "prediction_history st' = prediction_history st @ new" by (rule h)
    show "map (\<lambda>e. (h_smiles e, Score (h_prediction e), h_confidence e)) new =
          map (\<lambda>p. (row_smiles p, row_prediction p, row_confidence p))
            (filter (\<lambda>p. row_prediction p \<noteq> ERROR) (result_table st'))"
      unfolding tab by (rule m)
    show "(\<exists>s v. p = ok_row s v) \<or> (\<exists>s. p = error_row s)" if "p \<in> set (result_table st')" for p
      using that shape unfolding tab by blast
  qed
qed

lemma predict_single_cases:
  assumes "not_model (model st) = Inr b"
  shows "\<exists>st2. predict_single_molecule L st = Inr st2 \<and>
     ((\<exists>d. dialogs st2 = dialogs st @ [d]) \<and> prediction_history st2 = prediction_history st
        \<and> result_table st2 = result_table st
      \<or> dialogs st2 = dialogs st \<and>
        (\<exists>v. prediction_history st2 = prediction_history st @
               [\<lparr>timestamp = strftime_now L (ticks st), h_smiles = strip (smiles_input st),
                 h_prediction = v, h_confidence = 0.95\<rparr>]
           \<and> result_table st2 = [ok_row (strip (smiles_input st)) v]))"
  using assms
  by (auto simp: predict_single_molecule_def single_try_def Let_def display_single_result_def
      ok_row_def called_def not_model_def
      split: sum.splits option.splits prod.splits bool.splits)


lemma demo_run_unique:
  assumes "run_prediction lib_demo st_demo = Inr st'"
  shows "result_table st' = [ok_row aspirin (9 / 10), error_row ''not-a-molecule'']"
  using demo_run assms by auto

lemma strip_aspirin: "strip aspirin = aspirin"
  by (simp add: strip_def is_space_def aspirin_def)

text \<open>
  What the handlers catch. \<^verbatim>\<open>load_model\<close> always returns. The prediction methods
  return whenever the truth value of the model can be taken, and leave with its
  exception otherwise, since the guard stands before the \<^verbatim>\<open>try\<close>.
\<close>

lemma load_model_returns:
  "\<exists>st'. load_model L st = Inr st'"
  by (simp add: load_model_def Let_def split: sum.splits)

lemma predict_single_molecule_returns:
  assumes "not_model (model st) = Inr b"
  shows "\<exists>st'. predict_single_molecule L st = Inr st'"
  using predict_single_cases [OF assms] by blast

lemma run_prediction_returns:
  assumes "not_model (model st) = Inr b"
  shows "\<exists>st'. run_prediction L st = Inr st'"
  using assms
  by (simp add: run_prediction_def Let_def not_model_def
      split: option.splits sum.splits bool.splits)

lemma guard_raises:
  assumes "model st = Some m" and "truth m = Inl e"
  shows "strip (smiles_input st) \<noteq> [] \<Longrightarrow> predict_single_molecule L st = Inl e"
    and "strip (test_edit st) \<noteq> [] \<Longrightarrow> run_prediction L st = Inl e"
  using assms by (simp_all add: predict_single_molecule_def run_prediction_def Let_def)

section \<open>A string that cannot be parsed fails explicitly\<close>

text \<open>
  Claim C1. For every string RDKit cannot parse, the featurization raises
  (\<^verbatim>\<open>RuntimeError\<close>, the error of \<^verbatim>\<open>from_smi\<close>; the code has no error class of its
  own) and the exception reaches the handler of the operation. In the batch the
  \<^verbatim>\<open>except TypeError\<close> of lines 801 to 811 does not catch it, the iteration stops before
  any forward pass, leaves \<^verbatim>\<open>test_loader\<close> as it was and records the row tagged
  \<^verbatim>\<open>'ERROR'\<close>. In \<^verbatim>\<open>predict_single_molecule\<close> the \<^verbatim>\<open>try\<close> block ends with the
  exception after the featurization step, nothing is added to the history, and with a
  network loaded the method shows the error box of that exception. No string at all ends
  in a dataset of the fallback: the failure is never replaced by a placeholder.
\<close>

theorem unparsable_string_fails:
  assumes "MolFromSmiles L s = None"
  shows "primary_loader L s = Inl RuntimeError
     \<and> featurize_item L s = Inl RuntimeError
     \<and> item_try L m s prev =
         \<lparr>outcome = Inl RuntimeError, loader_after = prev, item_log = [],
          item_calls = [Featurization s]\<rparr>
     \<and> predictions (batch_item L m t i s ls) = predictions ls @ [error_row s]
     \<and> fst (single_try L m s st) = Some RuntimeError
     \<and> prediction_history (snd (single_try L m s st)) = prediction_history st
     \<and> lib_calls (snd (single_try L m s st)) = lib_calls st @ [Featurization s]
     \<and> (strip (smiles_input st) = s \<and> s \<noteq> [] \<and> model st = Some m \<and> truth m = Inr True \<longrightarrow>
          (\<exists>st'. predict_single_molecule L st = Inr st'
             \<and> dialogs st' = dialogs st @ [Critical_prediction_failed RuntimeError]
             \<and> prediction_history st' = prediction_history st
             \<and> result_table st' = result_table st))
     \<and> (\<forall>s' b. featurize_item L s' \<noteq> Inr (Fallback b))"
proof -
  have p: "primary_loader L s = Inl RuntimeError"
    using assms by (simp add: primary_loader_parse)
  have f: "featurize_item L s = Inl RuntimeError"
    using p by (simp add: featurize_item_primary)
  have it: "item_try L m s prev =
         \<lparr>outcome = Inl RuntimeError, loader_after = prev, item_log = [],
          item_calls = [Featurization s]\<rparr>" for prev
    using f by (simp add: item_try_def)
  have b: "predictions (batch_item L m t i s ls) = predictions ls @ [error_row s]"
    by (simp add: batch_item_predictions it)
  have s1: "single_try L m s st =
      (Some RuntimeError, called (Featurization s) (log_append [Log_analysing (take 50 s)] st))"
    using p by (simp add: single_try_def)
  have s2: "fst (single_try L m s st) = Some RuntimeError"
    and s3: "prediction_history (snd (single_try L m s st)) = prediction_history st"
    and s4: "lib_calls (snd (single_try L m s st)) = lib_calls st @ [Featurization s]"
    unfolding s1 by (simp_all add: called_def)
  have whole: "\<exists>st'. predict_single_molecule L st = Inr st'
             \<and> dialogs st' = dialogs st @ [Critical_prediction_failed RuntimeError]
             \<and> prediction_history st' = prediction_history st
             \<and> result_table st' = result_table st"
    if "strip (smiles_input st) = s \<and> s \<noteq> [] \<and> model st = Some m \<and> truth m = Inr True"
    using that s1 by (simp add: predict_single_molecule_def called_def)
  have never: "featurize_item L s' \<noteq> Inr (Fallback b)" for s' b
    by (simp add: featurize_item_primary split: sum.splits)
  show ?thesis
    using p f it b s2 s3 s4 whole never by (intro conjI impI allI)
qed

theorem unparsable_string_fails_witness:
  "MolFromSmiles lib_demo ''not-a-molecule'' = None
   \<and> featurize_item lib_demo ''not-a-molecule'' = Inl RuntimeError
   \<and> predictions (batch_item lib_demo network 2 1 ''not-a-molecule''
         \<lparr>ls_app = st_demo, test_loader = None, predictions = [ok_row aspirin (9 / 10)]\<rparr>) =
       [ok_row aspirin (9 / 10), error_row ''not-a-molecule'']
   \<and> fst (single_try lib_demo network ''not-a-molecule'' st_demo) = Some RuntimeError
   \<and> prediction_history (snd (single_try lib_demo network ''not-a-molecule'' st_demo)) = []
   \<and> strip (smiles_input st_bad) = ''not-a-molecule''
   \<and> ''not-a-molecule'' \<noteq> []
   \<and> model st_bad = Some network
   \<and> truth network = Inr True
   \<and> (\<exists>st'. predict_single_molecule lib_demo st_bad = Inr st'
         \<and> dialogs st' = [Critical_prediction_failed RuntimeError]
         \<and> prediction_history st' = []
         \<and> result_table st' = [])"
proof -
  have a: "MolFromSmiles lib_demo ''not-a-molecule'' = None"
    by (simp add: lib_demo_def)
  note T = unparsable_string_fails [OF a]
  have f: "featurize_item lib_demo ''not-a-molecule'' = Inl RuntimeError"
    using T [THEN conjunct2, THEN conjunct1] .
  have b: "predictions (batch_item lib_demo network 2 1 ''not-a-molecule''
         \<lparr>ls_app = st_demo, test_loader = None, predictions = [ok_row aspirin (9 / 10)]\<rparr>) =
       [ok_row aspirin (9 / 10), error_row ''not-a-molecule'']"
    using T [of network _ 2 1
        "\<lparr>ls_app = st_demo, test_loader = None, predictions = [ok_row aspirin (9 / 10)]\<rparr>",
        THEN conjunct2, THEN conjunct2, THEN conjunct2, THEN conjunct1]
    by simp
  have s: "fst (single_try lib_demo network ''not-a-molecule'' st_demo) = Some RuntimeError"
    using T [of network _ _ _ _ st_demo,
        THEN conjunct2, THEN conjunct2, THEN conjunct2, THEN conjunct2, THEN conjunct1] .
  have h: "prediction_history (snd (single_try lib_demo network ''not-a-molecule'' st_demo)) = []"
    using T [of network _ _ _ _ st_demo,
        THEN conjunct2, THEN conjunct2, THEN conjunct2, THEN conjunct2, THEN conjunct2,
        THEN conjunct1]
    by (simp add: st_demo_def)
  have g: "strip (smiles_input st_bad) = ''not-a-molecule''"
    by (simp add: st_bad_def strip_def is_space_def)
  have g': "''not-a-molecule'' \<noteq> []"
    by simp
  have mo: "model st_bad = Some network"
    by (simp add: st_bad_def st_demo_def)
  have tr: "truth network = Inr True"
    by (simp add: network_def)
  have "\<exists>st'. predict_single_molecule lib_demo st_bad = Inr st'
             \<and> dialogs st' = dialogs st_bad @ [Critical_prediction_failed RuntimeError]
             \<and> prediction_history st' = prediction_history st_bad
             \<and> result_table st' = result_table st_bad"
    using T [of network _ _ _ _ st_bad,
        THEN conjunct2, THEN conjunct2, THEN conjunct2, THEN conjunct2, THEN conjunct2,
        THEN conjunct2, THEN conjunct2, THEN conjunct1] g g' mo tr
    by simp
  then have w: "\<exists>st'. predict_single_molecule lib_demo st_bad = Inr st'
         \<and> dialogs st' = [Critical_prediction_failed RuntimeError]
         \<and> prediction_history st' = []
         \<and> result_table st' = []"
    by (simp add: st_bad_def st_demo_def)
  show ?thesis
    using a f b s h g g' mo tr w by (intro conjI)
qed

section \<open>An output that cannot be resolved gets the default value\<close>

text \<open>
  Claim C2, as stated, fails. It asks that an output whose shape cannot be resolved ends
  in an explicit error and never in a substituted value. An empty array cannot be
  resolved (\<^verbatim>\<open>pred.flat[0]\<close> raises), and \<^verbatim>\<open>_extract_prediction_value\<close> returns
  \<open>0.5\<close>, the value it returns for a model that answers \<open>0.5\<close>; the iteration of the
  batch that receives it sees an ordinary score.
\<close>
theorem extract_default_counterexample:
  "extract_try (NdArray (Dim [])) = Inl IndexError
   \<and> extract_prediction_value (NdArray (Dim [])) = (1 / 2, [Log_extract_default IndexError])
   \<and> fst (extract_prediction_value (NdArray (Dim []))) =
       fst (extract_prediction_value (NdArray (Dim [Dim [Elem (1 / 2)]])))
   \<and> outcome (item_try lib_empty_output network aspirin None) = Inr (1 / 2)"
  by (simp add: extract_prediction_value_def flat0_def item_try_def featurize_item_def
      primary_loader_def from_smi_def build_dataloader_def lib_empty_output_def lib_demo_def
      aspirin_def infer_def np_concatenate_def)

text \<open>
  Claim C2, amended. \<^verbatim>\<open>_extract_prediction_value\<close> never raises. When its \<^verbatim>\<open>try\<close>
  block raises, it appends one warning line to the log panel and returns the default
  \<open>0.5\<close>; otherwise it returns the value of the block and logs nothing. For the array the
  callers pass, the value is the first element in flat order, and the default for an
  empty array, which an iteration of the batch then takes as the score of its item.
\<close>
theorem extract_prediction_value_default:
  "(extract_try pred = Inl e \<longrightarrow> extract_prediction_value pred = (0.5, [Log_extract_default e]))
   \<and> (extract_try pred = Inr v \<longrightarrow> extract_prediction_value pred = (v, []))
   \<and> (elems a = [] \<longrightarrow> extract_prediction_value (NdArray a) = (0.5, [Log_extract_default IndexError]))
   \<and> (elems a = x # xs \<longrightarrow> extract_prediction_value (NdArray a) = (x, []))
   \<and> (featurize_item L s = Inr (Primary ld) \<and> infer L m ld = Inr a \<and> elems a = [] \<longrightarrow>
        outcome (item_try L m s prev) = Inr 0.5)"
  by (simp add: extract_prediction_value_def flat0_def item_try_def)

theorem extract_prediction_value_default_witness:
  "extract_try (NdArray (Dim [])) = Inl IndexError
   \<and> extract_prediction_value (NdArray (Dim [])) = (1 / 2, [Log_extract_default IndexError])
   \<and> extract_try (PyList [PyNone]) = Inl TypeError
   \<and> extract_prediction_value (PyList [PyNone]) = (1 / 2, [Log_extract_default TypeError])
   \<and> extract_try (Tensor (Dim [Elem (7 / 10), Elem (2 / 10)])) = Inr (7 / 10)
   \<and> extract_prediction_value (Tensor (Dim [Elem (7 / 10), Elem (2 / 10)])) = (7 / 10, [])"
proof -
  have a: "extract_try (NdArray (Dim [])) = Inl IndexError"
    by (simp add: flat0_def)
  have b: "extract_try (PyList [PyNone]) = Inl TypeError"
    by simp
  have c: "extract_try (Tensor (Dim [Elem (7 / 10), Elem (2 / 10)])) = Inr (7 / 10)"
    by (simp add: numel_def item_def)
  show ?thesis
    using a b c
      extract_prediction_value_default [of "NdArray (Dim [])" IndexError, THEN conjunct1]
      extract_prediction_value_default [of "PyList [PyNone]" TypeError, THEN conjunct1]
      extract_prediction_value_default [of "Tensor (Dim [Elem (7 / 10), Elem (2 / 10)])" _ "7 / 10",
        THEN conjunct2, THEN conjunct1]
    by simp
qed


section \<open>The batch isolates the failure of an item\<close>



section \<open>The history holds successful predictions only\<close>

text \<open>
  Claim C4. After \<^verbatim>\<open>run_prediction\<close> the history is the old history followed by one
  entry for each row that is not tagged \<^verbatim>\<open>'ERROR'\<close>, in the order of the rows and
  with their string, score and confidence: a row tagged \<^verbatim>\<open>'ERROR'\<close> adds nothing.
  With the same model, \<^verbatim>\<open>predict_single_molecule\<close> either shows a warning or error box and leaves the
  history as it was, or appends the single entry of the score it displays. In the
  scenario of one good and one bad string the history ends with exactly one entry.
\<close>
theorem history_only_successful:
  assumes "strip (test_edit st) \<noteq> []" and "model st = Some m" and "truth m = Inr True"
    and "read_csv L (strip (test_edit st)) = Inr (Some ss)"
  shows "(\<exists>st' new. run_prediction L st = Inr st'
        \<and> prediction_history st' = prediction_history st @ new
        \<and> map (\<lambda>e. (h_smiles e, Score (h_prediction e), h_confidence e)) new =
            map (\<lambda>p. (row_smiles p, row_prediction p, row_confidence p))
              (filter (\<lambda>p. row_prediction p \<noteq> ERROR) (result_table st'))
        \<and> length new = length (filter (\<lambda>p. row_prediction p \<noteq> ERROR) (result_table st')))
     \<and> (\<exists>st2. predict_single_molecule L st = Inr st2 \<and>
          ((\<exists>d. dialogs st2 = dialogs st @ [d]) \<and> prediction_history st2 = prediction_history st
           \<or> dialogs st2 = dialogs st \<and>
             (\<exists>e. prediction_history st2 = prediction_history st @ [e]
                  \<and> map row_prediction (result_table st2) = [Score (h_prediction e)])))"
proof
  obtain st' new where run: "run_prediction L st = Inr st'"
    and h: "prediction_history st' = prediction_history st @ new"
    and m: "map (\<lambda>e. (h_smiles e, Score (h_prediction e), h_confidence e)) new =
            map (\<lambda>p. (row_smiles p, row_prediction p, row_confidence p))
              (filter (\<lambda>p. row_prediction p \<noteq> ERROR) (result_table st'))"
    using run_prediction_rows [OF assms] by (elim exE conjE) (rule that, assumption+)
  have "length (map (\<lambda>e. (h_smiles e, Score (h_prediction e), h_confidence e)) new) =
        length (map (\<lambda>p. (row_smiles p, row_prediction p, row_confidence p))
              (filter (\<lambda>p. row_prediction p \<noteq> ERROR) (result_table st')))"
    by (simp only: m)
  then have len: "length new = length (filter (\<lambda>p. row_prediction p \<noteq> ERROR) (result_table st'))"
    by simp
  show "\<exists>st' new. run_prediction L st = Inr st'
        \<and> prediction_history st' = prediction_history st @ new
        \<and> map (\<lambda>e. (h_smiles e, Score (h_prediction e), h_confidence e)) new =
            map (\<lambda>p. (row_smiles p, row_prediction p, row_confidence p))
              (filter (\<lambda>p. row_prediction p \<noteq> ERROR) (result_table st'))
        \<and> length new = length (filter (\<lambda>p. row_prediction p \<noteq> ERROR) (result_table st'))"
    using run h m len by (intro exI [of _ st'] exI [of _ new] conjI)
next
  obtain st2 where one: "predict_single_molecule L st = Inr st2"
    and cases: "(\<exists>d. dialogs st2 = dialogs st @ [d]) \<and> prediction_history st2 = prediction_history st
        \<and> result_table st2 = result_table st
      \<or> dialogs st2 = dialogs st \<and>
        (\<exists>v. prediction_history st2 = prediction_history st @
               [\<lparr>timestamp = strftime_now L (ticks st), h_smiles = strip (smiles_input st),
                 h_prediction = v, h_confidence = 0.95\<rparr>]
           \<and> result_table st2 = [ok_row (strip (smiles_input st)) v])"
    using predict_single_cases [OF not_model_loaded [OF assms(2) assms(3)], where L = L] by (elim exE conjE) (rule that, assumption+)
  from cases have weak: "(\<exists>d. dialogs st2 = dialogs st @ [d]) \<and> prediction_history st2 = prediction_history st
           \<or> dialogs st2 = dialogs st \<and>
             (\<exists>e. prediction_history st2 = prediction_history st @ [e]
                  \<and> map row_prediction (result_table st2) = [Score (h_prediction e)])"
    by (auto simp: ok_row_def Let_def)
  have "predict_single_molecule L st = Inr st2 \<and>
          ((\<exists>d. dialogs st2 = dialogs st @ [d]) \<and> prediction_history st2 = prediction_history st
           \<or> dialogs st2 = dialogs st \<and>
             (\<exists>e. prediction_history st2 = prediction_history st @ [e]
                  \<and> map row_prediction (result_table st2) = [Score (h_prediction e)]))"
    using one weak by (rule conjI)
  then show "\<exists>st2. predict_single_molecule L st = Inr st2 \<and>
          ((\<exists>d. dialogs st2 = dialogs st @ [d]) \<and> prediction_history st2 = prediction_history st
           \<or> dialogs st2 = dialogs st \<and>
             (\<exists>e. prediction_history st2 = prediction_history st @ [e]
                  \<and> map row_prediction (result_table st2) = [Score (h_prediction e)]))"
    by (rule exI)
qed

theorem history_only_successful_witness:
  "strip (test_edit st_demo) \<noteq> []
   \<and> model st_demo = Some network
   \<and> truth network = Inr True
   \<and> read_csv lib_demo (strip (test_edit st_demo)) = Inr (Some [aspirin, ''not-a-molecule''])
   \<and> (\<exists>st'. run_prediction lib_demo st_demo = Inr st'
         \<and> map row_prediction (result_table st') = [Score (9 / 10), ERROR]
         \<and> length (prediction_history st') = 1
         \<and> map (\<lambda>e. (h_smiles e, h_prediction e, h_confidence e)) (prediction_history st') =
             [(aspirin, 9 / 10, 95 / 100)])"
proof -
  obtain st' new where run: "run_prediction lib_demo st_demo = Inr st'"
    and h: "prediction_history st' = prediction_history st_demo @ new"
    and m: "map (\<lambda>e. (h_smiles e, Score (h_prediction e), h_confidence e)) new =
            map (\<lambda>p. (row_smiles p, row_prediction p, row_confidence p))
              (filter (\<lambda>p. row_prediction p \<noteq> ERROR) (result_table st'))"
    using history_only_successful [OF demo_guards, THEN conjunct1]
    by (elim exE conjE) (rule that, assumption+)
  have tab: "result_table st' = [ok_row aspirin (9 / 10), error_row ''not-a-molecule'']"
    by (rule demo_run_unique [OF run])
  have m': "map (\<lambda>e. (h_smiles e, Score (h_prediction e), h_confidence e)) new =
            [(aspirin, Score (9 / 10), 95 / 100)]"
    using m unfolding tab by (simp add: ok_row_def error_row_def Let_def)
  then obtain e where new: "new = [e]" by auto
  have hist: "prediction_history st' = [e]"
    using h new by (simp add: st_demo_def)
  have proj: "(h_smiles e, h_prediction e, h_confidence e) = (aspirin, 9 / 10, 95 / 100)"
    using m' new by simp
  have preds: "map row_prediction (result_table st') = [Score (9 / 10), ERROR]"
    unfolding tab by (simp add: ok_row_def error_row_def Let_def)
  show ?thesis
    using demo_guards run preds hist proj by (intro conjI exI [of _ st']) simp_all
qed

section \<open>An exception of the export leaves the method\<close>

text \<open>
  Claim C5. \<^verbatim>\<open>export_history\<close> calls \<^verbatim>\<open>df.to_csv\<close> outside any \<^verbatim>\<open>try\<close>: with a
  history of one entry, a file chosen and a write that raises \<^verbatim>\<open>OSError\<close>, the
  exception leaves the method instead of being reported.
\<close>

theorem export_history_unhandled:
  "prediction_history st_one \<noteq> []
   \<and> to_csv lib_readonly ''prediction_history.csv'' (DataFrame (prediction_history st_one)) = Some OSError
   \<and> export_history lib_readonly ''prediction_history.csv'' st_one = Inl OSError"
proof (intro conjI)
  show "prediction_history st_one \<noteq> []"
    by (simp add: st_one_def)
  show "to_csv lib_readonly ''prediction_history.csv'' (DataFrame (prediction_history st_one)) = Some OSError"
    by (simp add: lib_readonly_def)
  show "export_history lib_readonly ''prediction_history.csv'' st_one = Inl OSError"
    by (simp add: export_history_def st_one_def lib_readonly_def Let_def)
qed

section \<open>Predicting after the model is unloaded\<close>

text \<open>
  Claim C6, as stated, fails. It asks for the message that no model is loaded on any
  string. The guard on the string comes first: for an empty input line the window asks
  for a string instead.
\<close>
theorem unloaded_blank_counterexample:
  "model (unload_model st_blank) = None
   \<and> predict_single_molecule lib_demo (unload_model st_blank) =
       Inr (show_dialog Warn_enter_smiles (unload_model st_blank))
   \<and> dialogs (show_dialog Warn_enter_smiles (unload_model st_blank)) = [Warn_enter_smiles]
   \<and> Warn_enter_smiles \<noteq> Warn_load_model_first"
  by (simp add: predict_single_molecule_def unload_model_def st_blank_def st_demo_def
      strip_def log_append_def show_dialog_def)

text \<open>
  Claim C6, amended. After \<^verbatim>\<open>unload_model\<close>, from any state,
  \<^verbatim>\<open>predict_single_molecule\<close> on a string that is not blank shows the message that no
  model is loaded; on a blank string (empty once \<^verbatim>\<open>strip()\<close> has removed the white
  space, a NO-BREAK SPACE included) it shows the message that asks for a string. In both
  cases it returns after this one message: no step of featurization or inference is
  started, and the history and the result table are as they were.
\<close>
theorem unloaded_predict_single:
  "(strip (smiles_input st) \<noteq> [] \<longrightarrow>
      predict_single_molecule L (unload_model st) =
        Inr (show_dialog Warn_load_model_first (unload_model st)))
   \<and> (strip (smiles_input st) = [] \<longrightarrow>
      predict_single_molecule L (unload_model st) =
        Inr (show_dialog Warn_enter_smiles (unload_model st)))
   \<and> (\<exists>st' d. predict_single_molecule L (unload_model st) = Inr st'
         \<and> lib_calls st' = lib_calls st
         \<and> prediction_history st' = prediction_history st
         \<and> result_table st' = result_table st
         \<and> model st' = None
         \<and> dialogs st' = dialogs st @ [d])"
proof -
  have m: "model (unload_model st) = None"
    and i: "smiles_input (unload_model st) = smiles_input st"
    and frame: "lib_calls (unload_model st) = lib_calls st"
      "prediction_history (unload_model st) = prediction_history st"
      "result_table (unload_model st) = result_table st"
      "dialogs (unload_model st) = dialogs st"
    by (simp_all add: unload_model_def log_append_def)
  have a: "predict_single_molecule L (unload_model st) =
        Inr (show_dialog Warn_load_model_first (unload_model st))"
    if "strip (smiles_input st) \<noteq> []"
    using that m i by (simp add: predict_single_molecule_def Let_def)
  have b: "predict_single_molecule L (unload_model st) =
        Inr (show_dialog Warn_enter_smiles (unload_model st))"
    if "strip (smiles_input st) = []"
    using that i by (simp add: predict_single_molecule_def Let_def)
  have c: "\<exists>st' d. predict_single_molecule L (unload_model st) = Inr st'
         \<and> lib_calls st' = lib_calls st
         \<and> prediction_history st' = prediction_history st
         \<and> result_table st' = result_table st
         \<and> model st' = None
         \<and> dialogs st' = dialogs st @ [d]"
  proof (cases "strip (smiles_input st) = []")
    case True
    show ?thesis
      by (rule exI [of _ "show_dialog Warn_enter_smiles (unload_model st)"],
          rule exI [of _ Warn_enter_smiles])
         (simp add: b [OF True] m frame)
  next
    case False
    show ?thesis
      by (rule exI [of _ "show_dialog Warn_load_model_first (unload_model st)"],
          rule exI [of _ Warn_load_model_first])
         (simp add: a [OF False] m frame)
  qed
  show ?thesis using a b c by blast
qed

theorem unloaded_predict_single_witness:
  "strip (smiles_input st_demo) \<noteq> []
   \<and> predict_single_molecule lib_demo (unload_model st_demo) =
       Inr (show_dialog Warn_load_model_first (unload_model st_demo))
   \<and> strip (smiles_input st_blank) = []
   \<and> predict_single_molecule lib_demo (unload_model st_blank) =
       Inr (show_dialog Warn_enter_smiles (unload_model st_blank))
   \<and> strip (smiles_input st_nbsp) = []
   \<and> predict_single_molecule lib_demo (unload_model st_nbsp) =
       Inr (show_dialog Warn_enter_smiles (unload_model st_nbsp))"
proof -
  have a: "strip (smiles_input st_demo) \<noteq> []"
    by (simp add: st_demo_def strip_aspirin) (simp add: aspirin_def)
  have b: "strip (smiles_input st_blank) = []"
    by (simp add: st_blank_def strip_def)
  have c: "strip (smiles_input st_nbsp) = []"
    by (simp add: st_nbsp_def strip_def is_space_def)
  show ?thesis
    using a b c
      unloaded_predict_single [of st_demo lib_demo, THEN conjunct1]
      unloaded_predict_single [of st_blank lib_demo, THEN conjunct2, THEN conjunct1]
      unloaded_predict_single [of st_nbsp lib_demo, THEN conjunct2, THEN conjunct1]
    by simp
qed

section \<open>The export writes the whole history\<close>

text \<open>
  Claim C7. When \<^verbatim>\<open>export_history\<close> writes (the history is not empty, a file was
  chosen, the write succeeds), the table has the columns \<^verbatim>\<open>timestamp\<close>,
  \<^verbatim>\<open>smiles\<close>, \<^verbatim>\<open>prediction\<close>, \<^verbatim>\<open>confidence\<close> and one row per entry of the
  history, in the order of the history, which it leaves unchanged. The history panel
  shows the last \<open>20\<close> entries only: \<open>min 20 n\<close> lines for \<open>n\<close> entries, the end of the
  list.
\<close>
theorem export_history_complete:
  assumes "prediction_history st \<noteq> []" and "file_path \<noteq> []"
    and "to_csv L file_path (DataFrame (prediction_history st)) = None"
  shows "\<exists>st' tbl. export_history L file_path st = Inr st'
     \<and> files st' = files st @ [(file_path, tbl)]
     \<and> columns tbl = [''timestamp'', ''smiles'', ''prediction'', ''confidence'']
     \<and> rows tbl = map entry_cells (prediction_history st)
     \<and> length (rows tbl) = length (prediction_history st)
     \<and> prediction_history st' = prediction_history st
     \<and> history_display (update_history_display st) =
         History_table (map shown (last_n 20 (prediction_history st)))
     \<and> length (last_n 20 (prediction_history st)) = min 20 (length (prediction_history st))
     \<and> take (length (prediction_history st) - 20) (prediction_history st)
         @ last_n 20 (prediction_history st) = prediction_history st"
proof (intro exI [of _ "show_dialog Info_exported
                    (log_append [Log_exported file_path]
                       (st\<lparr>files := files st @ [(file_path, DataFrame (prediction_history st))]\<rparr>))"]
    exI [of _ "DataFrame (prediction_history st)"] conjI)
  show "export_history L file_path st =
        Inr (show_dialog Info_exported
              (log_append [Log_exported file_path]
                 (st\<lparr>files := files st @ [(file_path, DataFrame (prediction_history st))]\<rparr>)))"
    using assms by (simp add: export_history_def Let_def)
  show "files (show_dialog Info_exported
              (log_append [Log_exported file_path]
                 (st\<lparr>files := files st @ [(file_path, DataFrame (prediction_history st))]\<rparr>))) =
        files st @ [(file_path, DataFrame (prediction_history st))]"
    by simp
  show "columns (DataFrame (prediction_history st)) = [''timestamp'', ''smiles'', ''prediction'', ''confidence'']"
    using assms(1) by (simp add: DataFrame_def)
  show "rows (DataFrame (prediction_history st)) = map entry_cells (prediction_history st)"
    by (simp add: DataFrame_def)
  show "length (rows (DataFrame (prediction_history st))) = length (prediction_history st)"
    by (simp add: DataFrame_def)
  show "prediction_history (show_dialog Info_exported
              (log_append [Log_exported file_path]
                 (st\<lparr>files := files st @ [(file_path, DataFrame (prediction_history st))]\<rparr>))) =
        prediction_history st"
    by simp
  show "history_display (update_history_display st) =
         History_table (map shown (last_n 20 (prediction_history st)))"
    using assms(1) by (simp add: update_history_display_def)
  show "length (last_n 20 (prediction_history st)) = min 20 (length (prediction_history st))"
    by (simp add: last_n_def)
  show "take (length (prediction_history st) - 20) (prediction_history st)
         @ last_n 20 (prediction_history st) = prediction_history st"
    by (simp add: last_n_def)
qed

theorem export_history_complete_witness:
  "prediction_history st_long \<noteq> []
   \<and> ''prediction_history.csv'' \<noteq> []
   \<and> to_csv lib_demo ''prediction_history.csv'' (DataFrame (prediction_history st_long)) = None
   \<and> (\<exists>st' tbl. export_history lib_demo ''prediction_history.csv'' st_long = Inr st'
         \<and> files st' = [(''prediction_history.csv'', tbl)]
         \<and> columns tbl = [''timestamp'', ''smiles'', ''prediction'', ''confidence'']
         \<and> length (rows tbl) = 21)
   \<and> length (last_n 20 (prediction_history st_long)) = 20"
proof -
  have len: "length (prediction_history st_long) = 21"
    by (simp add: st_long_def history21_def)
  have a: "prediction_history st_long \<noteq> []"
    using len by auto
  have b: "''prediction_history.csv'' \<noteq> []"
    by simp
  have c: "to_csv lib_demo ''prediction_history.csv'' (DataFrame (prediction_history st_long)) = None"
    by (simp add: lib_demo_def)
  have f: "files st_long = []"
    by (simp add: st_long_def st_demo_def)
  obtain st' tbl where run: "export_history lib_demo ''prediction_history.csv'' st_long = Inr st'"
    and fs: "files st' = files st_long @ [(''prediction_history.csv'', tbl)]"
    and cols: "columns tbl = [''timestamp'', ''smiles'', ''prediction'', ''confidence'']"
    and n: "length (rows tbl) = length (prediction_history st_long)"
    and shown: "length (last_n 20 (prediction_history st_long)) = min 20 (length (prediction_history st_long))"
    using export_history_complete [OF a b c] by (elim exE conjE) (rule that, assumption+)
  have ex: "\<exists>st' tbl. export_history lib_demo ''prediction_history.csv'' st_long = Inr st'
         \<and> files st' = [(''prediction_history.csv'', tbl)]
         \<and> columns tbl = [''timestamp'', ''smiles'', ''prediction'', ''confidence'']
         \<and> length (rows tbl) = 21"
    using run fs cols n len f by (intro exI [of _ st'] exI [of _ tbl]) simp
  have d: "length (last_n 20 (prediction_history st_long)) = 20"
    using shown len by simp
  show ?thesis
    using a b c ex d by (intro conjI)
qed

section \<open>The label is the score against the threshold\<close>

text \<open>
  Claim C8. Every row \<^verbatim>\<open>run_prediction\<close> shows that carries a score is labelled
  positive exactly when the score is above \<open>0.5\<close>; a row tagged \<^verbatim>\<open>'ERROR'\<close> carries no
  score and is labelled negative. \<^verbatim>\<open>display_single_result\<close> labels its row by the same
  comparison. A score of exactly \<open>0.5\<close> is not above the threshold, so it is negative.
\<close>
theorem label_is_threshold:
  assumes "strip (test_edit st) \<noteq> []" and "model st = Some m" and "truth m = Inr True"
    and "read_csv L (strip (test_edit st)) = Inr (Some ss)"
  shows "(\<exists>st'. run_prediction L st = Inr st'
        \<and> (\<forall>p\<in>set (result_table st').
              case row_prediction p of
                Score v \<Rightarrow> is_antibiotic p = (v > 0.5)
              | ERROR \<Rightarrow> \<not> is_antibiotic p))
     \<and> map is_antibiotic (result_table (display_single_result s v c st0)) = [v > 0.5]
     \<and> \<not> is_antibiotic (ok_row s 0.5)"
proof (intro conjI)
  obtain st' where run: "run_prediction L st = Inr st'"
    and shape: "\<forall>p\<in>set (result_table st'). (\<exists>s v. p = ok_row s v) \<or> (\<exists>s. p = error_row s)"
    using run_prediction_rows [OF assms] by (elim exE conjE) (rule that, assumption+)
  have "case row_prediction p of Score v \<Rightarrow> is_antibiotic p = (v > 0.5) | ERROR \<Rightarrow> \<not> is_antibiotic p"
    if "p \<in> set (result_table st')" for p
    using shape that by (auto simp: ok_row_def error_row_def Let_def)
  then show "\<exists>st'. run_prediction L st = Inr st'
        \<and> (\<forall>p\<in>set (result_table st').
              case row_prediction p of
                Score v \<Rightarrow> is_antibiotic p = (v > 0.5)
              | ERROR \<Rightarrow> \<not> is_antibiotic p)"
    using run by (intro exI [of _ st'] conjI ballI)
next
  show "map is_antibiotic (result_table (display_single_result s v c st0)) = [v > 0.5]"
    by (simp add: display_single_result_def Let_def)
next
  show "\<not> is_antibiotic (ok_row s 0.5)"
    by (simp add: ok_row_def Let_def)
qed

theorem label_is_threshold_witness:
  "strip (test_edit st_demo) \<noteq> []
   \<and> model st_demo = Some network
   \<and> truth network = Inr True
   \<and> read_csv lib_demo (strip (test_edit st_demo)) = Inr (Some [aspirin, ''not-a-molecule''])
   \<and> (\<exists>st'. run_prediction lib_demo st_demo = Inr st'
         \<and> map row_prediction (result_table st') = [Score (9 / 10), ERROR]
         \<and> map is_antibiotic (result_table st') = [True, False])"
proof -
  obtain st' where run: "run_prediction lib_demo st_demo = Inr st'"
    and lab: "\<forall>p\<in>set (result_table st').
              case row_prediction p of
                Score v \<Rightarrow> is_antibiotic p = (v > 0.5)
              | ERROR \<Rightarrow> \<not> is_antibiotic p"
    using label_is_threshold [OF demo_guards, THEN conjunct1]
    by (elim exE conjE) (rule that, assumption+)
  have tab: "result_table st' = [ok_row aspirin (9 / 10), error_row ''not-a-molecule'']"
    by (rule demo_run_unique [OF run])
  have preds: "map row_prediction (result_table st') = [Score (9 / 10), ERROR]"
    unfolding tab by (simp add: ok_row_def error_row_def Let_def)
  have p0: "row_prediction (ok_row aspirin (9 / 10)) = Score (9 / 10)"
    by (simp add: ok_row_def Let_def)
  have p1: "row_prediction (error_row ''not-a-molecule'') = ERROR"
    by (simp add: error_row_def)
  have l0: "is_antibiotic (ok_row aspirin (9 / 10))"
    using lab [unfolded tab, rule_format, of "ok_row aspirin (9 / 10)"] p0 by simp
  have l1: "\<not> is_antibiotic (error_row ''not-a-molecule'')"
    using lab [unfolded tab, rule_format, of "error_row ''not-a-molecule''"] p1 by simp
  have labs: "map is_antibiotic (result_table st') = [True, False]"
    unfolding tab using l0 l1 by simp
  show ?thesis
    using demo_guards run preds labs by (intro conjI exI [of _ st']) simp_all
qed

section \<open>Clearing the history\<close>

text \<open>
  Claim C9. After any number of successful predictions, each of which appends one entry,
  \<^verbatim>\<open>clear_history\<close> leaves an empty history: the most recent \<open>limit\<close> entries are
  the empty list for every \<open>limit\<close>, and the panel shows the placeholder.
\<close>

theorem clear_history_empties:
  "prediction_history (clear_history (fold (\<lambda>(s, v). add_to_history L s v 0.95) ps st)) = []
   \<and> last_n limit (prediction_history (clear_history (fold (\<lambda>(s, v). add_to_history L s v 0.95) ps st))) = []
   \<and> history_display (clear_history (fold (\<lambda>(s, v). add_to_history L s v 0.95) ps st)) = No_history"
  by (simp add: clear_history_def last_n_def update_history_display_def log_append_def)

section \<open>The confidence is a constant\<close>




end
